theory Spec2Isabelle
  imports Main "HOL-Library.Sublist"
begin

section \<open>GraphQL documents\<close>

text \<open>
  The executable part of the GraphQL AST that \<^verbatim>\<open>scrubSelection\<close> and the type generators
  read: a document is a list of operation and fragment definitions. Node kinds are the
  constructors; a name node is its string; an optional child is an \<open>option\<close>.

  The default value and the directives of a variable definition are constant in the GraphQL
  grammar (\<^verbatim>\<open>DefaultValue : = Value[Const]\<close>, \<^verbatim>\<open>Directives[Const]\<close>): no variable can occur
  there, so they have node types of their own, without the \<open>Variable\<close> constructor.
  \<open>directive_of_const\<close> reads a constant directive as the directive node a visitor receives.
\<close>

datatype type_node = NamedType string | ListType type_node | NonNullType type_node

datatype value_node =
    Variable string
  | IntValue string
  | FloatValue string
  | StringValue string
  | BooleanValue bool
  | NullValue
  | EnumValue string
  | ListValue "value_node list"
  | ObjectValue "object_field_node list"
and object_field_node = ObjectField string value_node

datatype const_value_node =
    ConstIntValue string
  | ConstFloatValue string
  | ConstStringValue string
  | ConstBooleanValue bool
  | ConstNullValue
  | ConstEnumValue string
  | ConstListValue "const_value_node list"
  | ConstObjectValue "const_object_field_node list"
and const_object_field_node = ConstObjectField string const_value_node

datatype argument_node = Argument (arg_name: string) (arg_value: value_node)

datatype const_argument_node = ConstArgument string const_value_node

datatype directive_node = Directive (dir_name: string) (dir_arguments: "argument_node list")

datatype const_directive_node = ConstDirective string "const_argument_node list"

fun value_of_const :: "const_value_node \<Rightarrow> value_node"
and field_of_const :: "const_object_field_node \<Rightarrow> object_field_node" where
  "value_of_const (ConstIntValue s) = IntValue s"
| "value_of_const (ConstFloatValue s) = FloatValue s"
| "value_of_const (ConstStringValue s) = StringValue s"
| "value_of_const (ConstBooleanValue b) = BooleanValue b"
| "value_of_const ConstNullValue = NullValue"
| "value_of_const (ConstEnumValue s) = EnumValue s"
| "value_of_const (ConstListValue vs) = ListValue (map value_of_const vs)"
| "value_of_const (ConstObjectValue fs) = ObjectValue (map field_of_const fs)"
| "field_of_const (ConstObjectField k v) = ObjectField k (value_of_const v)"

fun argument_of_const :: "const_argument_node \<Rightarrow> argument_node" where
  "argument_of_const (ConstArgument k v) = Argument k (value_of_const v)"

fun directive_of_const :: "const_directive_node \<Rightarrow> directive_node" where
  "directive_of_const (ConstDirective n as) = Directive n (map argument_of_const as)"

datatype variable_definition_node =
  VariableDefinition (vd_variable: string) (vd_type: type_node)
    (vd_defaultValue: "const_value_node option") (vd_directives: "const_directive_node list")

text \<open>
  \<open>FieldNode alias name arguments directives selectionSet\<close>,
  \<open>FragmentSpread name directives\<close>, \<open>InlineFragment typeCondition directives selectionSet\<close>.
\<close>

datatype selection_node =
    FieldNode "string option" string "argument_node list" "directive_node list"
      "selection_node list option"
  | FragmentSpread string "directive_node list"
  | InlineFragment "string option" "directive_node list" "selection_node list"

datatype operation_type = Query | Mutation | Subscription

datatype operation_definition_node =
  OperationDefinition (od_operation: operation_type) (od_name: "string option")
    (od_variableDefinitions: "variable_definition_node list option")
    (od_directives: "directive_node list") (od_selectionSet: "selection_node list")

datatype fragment_definition_node =
  FragmentDefinition (fd_name: string)
    (fd_variableDefinitions: "variable_definition_node list option")
    (fd_typeCondition: string)
    (fd_directives: "directive_node list") (fd_selectionSet: "selection_node list")

datatype definition_node =
    OperationDef operation_definition_node
  | FragmentDef fragment_definition_node

datatype document_node = Document (definitions: "definition_node list")


section \<open>scrubSelection\<close>

subsection \<open>First traversal: internal directives and used variables\<close>

text \<open>
  \<^verbatim>\<open>graphql.visit\<close> walks the tree depth first, the children of a node in the order of the
  library's key table (for a field: arguments, directives, selection set). A visitor function
  that returns \<^verbatim>\<open>null\<close> deletes the node and its children are not entered; one that returns
  nothing leaves the node and the walk goes on into it. The first call of the source has
  two visitor functions:
  \<^item> \<^verbatim>\<open>Directive\<close>: \<^verbatim>\<open>null\<close> when \<open>isInternalDirective\<close> holds of the node;
  \<^item> \<^verbatim>\<open>Variable\<close>: adds the name to \<^verbatim>\<open>usedVariableNames\<close> unless the parent node is a
    \<^verbatim>\<open>VariableDefinition\<close>.
  The set is the state \<open>U\<close> threaded through the walk. Values are never rewritten, so the
  functions on values return the set only.
\<close>

fun visit1_value :: "value_node \<Rightarrow> string set \<Rightarrow> string set"
and visit1_values :: "value_node list \<Rightarrow> string set \<Rightarrow> string set"
and visit1_object_fields :: "object_field_node list \<Rightarrow> string set \<Rightarrow> string set" where
  "visit1_value (Variable n) U = insert n U"
| "visit1_value (IntValue s) U = U"
| "visit1_value (FloatValue s) U = U"
| "visit1_value (StringValue s) U = U"
| "visit1_value (BooleanValue b) U = U"
| "visit1_value NullValue U = U"
| "visit1_value (EnumValue s) U = U"
| "visit1_value (ListValue vs) U = visit1_values vs U"
| "visit1_value (ObjectValue fs) U = visit1_object_fields fs U"
| "visit1_values [] U = U"
| "visit1_values (v # vs) U = visit1_values vs (visit1_value v U)"
| "visit1_object_fields [] U = U"
| "visit1_object_fields (ObjectField k v # fs) U = visit1_object_fields fs (visit1_value v U)"

fun visit1_arguments :: "argument_node list \<Rightarrow> string set \<Rightarrow> string set" where
  "visit1_arguments [] U = U"
| "visit1_arguments (Argument k v # as) U = visit1_arguments as (visit1_value v U)"

fun visit1_directives ::
  "(directive_node \<Rightarrow> bool) \<Rightarrow> directive_node list \<Rightarrow> string set
     \<Rightarrow> directive_node list \<times> string set" where
  "visit1_directives isInternalDirective [] U = ([], U)"
| "visit1_directives isInternalDirective (d # ds) U =
     (if isInternalDirective d then visit1_directives isInternalDirective ds U
      else (case visit1_directives isInternalDirective ds (visit1_arguments (dir_arguments d) U) of
              (ds', U') \<Rightarrow> (d # ds', U')))"

fun visit1_selection ::
  "(directive_node \<Rightarrow> bool) \<Rightarrow> selection_node \<Rightarrow> string set
     \<Rightarrow> selection_node \<times> string set"
and visit1_selections ::
  "(directive_node \<Rightarrow> bool) \<Rightarrow> selection_node list \<Rightarrow> string set
     \<Rightarrow> selection_node list \<times> string set" where
  "visit1_selection P (FieldNode a n args ds ss) U =
     (case visit1_directives P ds (visit1_arguments args U) of (ds', U1) \<Rightarrow>
        (case ss of
           None \<Rightarrow> (FieldNode a n args ds' None, U1)
         | Some sels \<Rightarrow>
             (case visit1_selections P sels U1 of (sels', U2) \<Rightarrow>
                (FieldNode a n args ds' (Some sels'), U2))))"
| "visit1_selection P (FragmentSpread n ds) U =
     (case visit1_directives P ds U of (ds', U1) \<Rightarrow> (FragmentSpread n ds', U1))"
| "visit1_selection P (InlineFragment tc ds sels) U =
     (case visit1_directives P ds U of (ds', U1) \<Rightarrow>
        (case visit1_selections P sels U1 of (sels', U2) \<Rightarrow>
           (InlineFragment tc ds' sels', U2)))"
| "visit1_selections P [] U = ([], U)"
| "visit1_selections P (s # ss) U =
     (case visit1_selection P s U of (s', U1) \<Rightarrow>
        (case visit1_selections P ss U1 of (ss', U2) \<Rightarrow> (s' # ss', U2)))"

text \<open>
  In a variable definition the walk meets the defined variable (its parent is the
  \<^verbatim>\<open>VariableDefinition\<close>, so nothing is added), the type, the constant default value and the
  constant directives, which hold no \<open>Variable\<close> node: the set does not change, and only
  the \<^verbatim>\<open>Directive\<close> function can rewrite something.
\<close>

fun visit1_const_directives ::
  "(directive_node \<Rightarrow> bool) \<Rightarrow> const_directive_node list \<Rightarrow> const_directive_node list" where
  "visit1_const_directives isInternalDirective [] = []"
| "visit1_const_directives isInternalDirective (d # ds) =
     (if isInternalDirective (directive_of_const d)
      then visit1_const_directives isInternalDirective ds
      else d # visit1_const_directives isInternalDirective ds)"

fun visit1_variable_definition ::
  "(directive_node \<Rightarrow> bool) \<Rightarrow> variable_definition_node \<Rightarrow> variable_definition_node" where
  "visit1_variable_definition P (VariableDefinition v t dv ds) =
     VariableDefinition v t dv (visit1_const_directives P ds)"

fun visit1_variable_definitions ::
  "(directive_node \<Rightarrow> bool) \<Rightarrow> variable_definition_node list option
     \<Rightarrow> variable_definition_node list option" where
  "visit1_variable_definitions P None = None"
| "visit1_variable_definitions P (Some vds) = Some (map (visit1_variable_definition P) vds)"

fun visit1_definition ::
  "(directive_node \<Rightarrow> bool) \<Rightarrow> definition_node \<Rightarrow> string set
     \<Rightarrow> definition_node \<times> string set" where
  "visit1_definition P (OperationDef (OperationDefinition op n vds ds ss)) U =
     (case visit1_directives P ds U of (ds', U1) \<Rightarrow>
        (case visit1_selections P ss U1 of (ss', U2) \<Rightarrow>
           (OperationDef (OperationDefinition op n (visit1_variable_definitions P vds) ds' ss'),
            U2)))"
| "visit1_definition P (FragmentDef (FragmentDefinition n vds tc ds ss)) U =
     (case visit1_directives P ds U of (ds', U1) \<Rightarrow>
        (case visit1_selections P ss U1 of (ss', U2) \<Rightarrow>
           (FragmentDef (FragmentDefinition n (visit1_variable_definitions P vds) tc ds' ss'),
            U2)))"

fun visit1_definitions ::
  "(directive_node \<Rightarrow> bool) \<Rightarrow> definition_node list \<Rightarrow> string set
     \<Rightarrow> definition_node list \<times> string set" where
  "visit1_definitions P [] U = ([], U)"
| "visit1_definitions P (d # ds) U =
     (case visit1_definition P d U of (d', U1) \<Rightarrow>
        (case visit1_definitions P ds U1 of (ds', U2) \<Rightarrow> (d' # ds', U2)))"

fun visit1_document ::
  "(directive_node \<Rightarrow> bool) \<Rightarrow> document_node \<Rightarrow> string set
     \<Rightarrow> document_node \<times> string set" where
  "visit1_document P (Document defs) U =
     (case visit1_definitions P defs U of (defs', U') \<Rightarrow> (Document defs', U'))"

subsection \<open>Second traversal: unused variable definitions\<close>

text \<open>
  The second call has one visitor function, \<^verbatim>\<open>VariableDefinition\<close>: \<^verbatim>\<open>null\<close> when the
  name of the defined variable is not in \<^verbatim>\<open>usedVariableNames\<close>.
\<close>

fun visit2_variable_definitions ::
  "string set \<Rightarrow> variable_definition_node list option
     \<Rightarrow> variable_definition_node list option" where
  "visit2_variable_definitions usedVariableNames None = None"
| "visit2_variable_definitions usedVariableNames (Some vds) =
     Some (filter (\<lambda>vd. vd_variable vd \<in> usedVariableNames) vds)"

fun visit2_definition :: "string set \<Rightarrow> definition_node \<Rightarrow> definition_node" where
  "visit2_definition U (OperationDef (OperationDefinition op n vds ds ss)) =
     OperationDef (OperationDefinition op n (visit2_variable_definitions U vds) ds ss)"
| "visit2_definition U (FragmentDef (FragmentDefinition n vds tc ds ss)) =
     FragmentDef (FragmentDefinition n (visit2_variable_definitions U vds) tc ds ss)"

fun visit2_document :: "string set \<Rightarrow> document_node \<Rightarrow> document_node" where
  "visit2_document U (Document defs) = Document (map (visit2_definition U) defs)"

text \<open>
  The source has no \<^verbatim>\<open>throw\<close> and the predicate is total, so the function has no error
  branch: it returns a document for every document.
\<close>

definition scrubSelection :: "(directive_node \<Rightarrow> bool) \<Rightarrow> document_node \<Rightarrow> document_node" where
  "scrubSelection isInternalDirective document =
     (case visit1_document isInternalDirective document {} of
        (documentWithoutInternalDirectives, usedVariableNames) \<Rightarrow>
          visit2_document usedVariableNames documentWithoutInternalDirectives)"

subsection \<open>What a document contains\<close>

text \<open>
  \<open>var_refs_* keep\<close> lists the names of the \<open>Variable\<close> nodes of a tree that are not the
  defined variable of a variable definition, looking only into the directives that \<open>keep\<close>
  accepts: with \<open>\<lambda>_. True\<close> every reference of the tree, with
  \<open>\<lambda>d. \<not> isInternalDirective d\<close> the references outside the internal directives.
\<close>

fun var_refs_value :: "value_node \<Rightarrow> string list"
and var_refs_values :: "value_node list \<Rightarrow> string list"
and var_refs_object_fields :: "object_field_node list \<Rightarrow> string list" where
  "var_refs_value (Variable n) = [n]"
| "var_refs_value (IntValue s) = []"
| "var_refs_value (FloatValue s) = []"
| "var_refs_value (StringValue s) = []"
| "var_refs_value (BooleanValue b) = []"
| "var_refs_value NullValue = []"
| "var_refs_value (EnumValue s) = []"
| "var_refs_value (ListValue vs) = var_refs_values vs"
| "var_refs_value (ObjectValue fs) = var_refs_object_fields fs"
| "var_refs_values [] = []"
| "var_refs_values (v # vs) = var_refs_value v @ var_refs_values vs"
| "var_refs_object_fields [] = []"
| "var_refs_object_fields (ObjectField k v # fs) = var_refs_value v @ var_refs_object_fields fs"

fun var_refs_arguments :: "argument_node list \<Rightarrow> string list" where
  "var_refs_arguments [] = []"
| "var_refs_arguments (Argument k v # as) = var_refs_value v @ var_refs_arguments as"

fun var_refs_directives :: "(directive_node \<Rightarrow> bool) \<Rightarrow> directive_node list \<Rightarrow> string list" where
  "var_refs_directives keep [] = []"
| "var_refs_directives keep (d # ds) =
     (if keep d then var_refs_arguments (dir_arguments d) else []) @ var_refs_directives keep ds"

fun var_refs_selection :: "(directive_node \<Rightarrow> bool) \<Rightarrow> selection_node \<Rightarrow> string list"
and var_refs_selections :: "(directive_node \<Rightarrow> bool) \<Rightarrow> selection_node list \<Rightarrow> string list" where
  "var_refs_selection keep (FieldNode a n args ds ss) =
     var_refs_arguments args @ var_refs_directives keep ds @
     (case ss of None \<Rightarrow> [] | Some sels \<Rightarrow> var_refs_selections keep sels)"
| "var_refs_selection keep (FragmentSpread n ds) = var_refs_directives keep ds"
| "var_refs_selection keep (InlineFragment tc ds sels) =
     var_refs_directives keep ds @ var_refs_selections keep sels"
| "var_refs_selections keep [] = []"
| "var_refs_selections keep (s # ss) = var_refs_selection keep s @ var_refs_selections keep ss"

fun var_refs_definition :: "(directive_node \<Rightarrow> bool) \<Rightarrow> definition_node \<Rightarrow> string list" where
  "var_refs_definition keep (OperationDef (OperationDefinition op n vds ds ss)) =
     var_refs_directives keep ds @ var_refs_selections keep ss"
| "var_refs_definition keep (FragmentDef (FragmentDefinition n vds tc ds ss)) =
     var_refs_directives keep ds @ var_refs_selections keep ss"

fun var_refs_document :: "(directive_node \<Rightarrow> bool) \<Rightarrow> document_node \<Rightarrow> string list" where
  "var_refs_document keep (Document defs) = concat (map (var_refs_definition keep) defs)"

fun directives_selection :: "selection_node \<Rightarrow> directive_node list"
and directives_selections :: "selection_node list \<Rightarrow> directive_node list" where
  "directives_selection (FieldNode a n args ds ss) =
     ds @ (case ss of None \<Rightarrow> [] | Some sels \<Rightarrow> directives_selections sels)"
| "directives_selection (FragmentSpread n ds) = ds"
| "directives_selection (InlineFragment tc ds sels) = ds @ directives_selections sels"
| "directives_selections [] = []"
| "directives_selections (s # ss) = directives_selection s @ directives_selections ss"

fun variable_definitions_of :: "definition_node \<Rightarrow> variable_definition_node list" where
  "variable_definitions_of (OperationDef (OperationDefinition op n vds ds ss)) =
     (case vds of None \<Rightarrow> [] | Some l \<Rightarrow> l)"
| "variable_definitions_of (FragmentDef (FragmentDefinition n vds tc ds ss)) =
     (case vds of None \<Rightarrow> [] | Some l \<Rightarrow> l)"

fun variable_definitions_document :: "document_node \<Rightarrow> variable_definition_node list" where
  "variable_definitions_document (Document defs) = concat (map variable_definitions_of defs)"

text \<open>Every directive node of a definition: on its variable definitions, on itself, in its selections.\<close>

fun directives_definition :: "definition_node \<Rightarrow> directive_node list" where
  "directives_definition (OperationDef (OperationDefinition op n vds ds ss)) =
     concat (map (\<lambda>vd. map directive_of_const (vd_directives vd))
       (variable_definitions_of (OperationDef (OperationDefinition op n vds ds ss))))
     @ ds @ directives_selections ss"
| "directives_definition (FragmentDef (FragmentDefinition n vds tc ds ss)) =
     concat (map (\<lambda>vd. map directive_of_const (vd_directives vd))
       (variable_definitions_of (FragmentDef (FragmentDefinition n vds tc ds ss))))
     @ ds @ directives_selections ss"

fun directives_document :: "document_node \<Rightarrow> directive_node list" where
  "directives_document (Document defs) = concat (map directives_definition defs)"


section \<open>Type definitions of the artifacts\<close>

subsection \<open>The generated program\<close>

text \<open>
  The nodes the source builds with recast's builders. A property signature is
  \<open>TSPropertySignature key typeAnnotation optional readonly\<close>; the builder's defaults for
  \<open>optional\<close> and \<open>readonly\<close> are false. \<open>TSLiteralType b\<close> is the literal type of the
  boolean \<open>b\<close>. \<open>ImportDeclaration identifier source importKind\<close> imports one name.
\<close>

datatype ts_type =
    TSTypeReference string
  | TSNullKeyword
  | TSUndefinedKeyword
  | TSUnionType "ts_type list"
  | TSTypeLiteral "ts_property_signature list"
  | TSLiteralType bool
and ts_property_signature =
    TSPropertySignature (ps_key: string) (ps_typeAnnotation: ts_type)
      (ps_optional: bool) (ps_readonly: bool)

datatype ts_declaration = TSTypeAliasDeclaration string ts_type

datatype statement =
    ImportDeclaration string string string
  | ExportNamedDeclaration ts_declaration
  | ExportAllDeclaration string

text \<open>
  What a generator throws: an \<^verbatim>\<open>Error\<close> with its message, or the \<^verbatim>\<open>TypeError\<close> of reading
  a property of \<^verbatim>\<open>undefined\<close>.
\<close>

datatype error = Error string | TypeError

text \<open>
  The schema and the configuration are read through these members only; the named type a
  lookup returns is tested for presence and nothing else, so it is its name.
\<close>

record schema =
  getQueryType :: "string option"
  getMutationType :: "string option"
  getSubscriptionType :: "string option"
  getType :: "string \<Rightarrow> string option"

record config =
  config_schema :: schema
  config_isInternalDirective :: "directive_node \<Rightarrow> bool"
  internalTypeDefinitionFile :: string
  internalTypeDefinitionFileName :: string
  artifactTypePath :: "document_node \<Rightarrow> string"

record collected_document =
  cd_name :: string
  cd_document :: document_node
  cd_originalDocument :: document_node
  cd_generateStore :: bool
  cd_generateArtifact :: bool

text \<open>
  Modelled from the spec: \<^verbatim>\<open>readonlyProperty\<close> is imported from \<^verbatim>\<open>./types\<close>, which is not
  among the sources. The spec calls the fields it wraps read-only: it sets the read-only
  flag of the property signature and changes nothing else.
\<close>

definition readonlyProperty :: "ts_property_signature \<Rightarrow> ts_property_signature" where
  "readonlyProperty prop =
     TSPropertySignature (ps_key prop) (ps_typeAnnotation prop) (ps_optional prop) True"

definition fragmentKey :: string where
  "fragmentKey = ''$fragments''"

definition internalTypeImport :: "config \<Rightarrow> string \<Rightarrow> statement" where
  "internalTypeImport config identifier =
     ImportDeclaration identifier (''./'' @ internalTypeDefinitionFileName config) ''type''"

subsection \<open>Operations\<close>

fun operation_string :: "operation_type \<Rightarrow> string" where
  "operation_string Query = ''query''"
| "operation_string Mutation = ''mutation''"
| "operation_string Subscription = ''subscription''"

text \<open>
  \<^verbatim>\<open>toUpperCase\<close> on one ASCII character: a lower-case letter loses bit 5 (32), any other
  character stays. \<open>capitalized s\<close> is \<^verbatim>\<open>s[0].toUpperCase() + s.slice(1)\<close>; the source
  applies it to the three operation keywords only.
\<close>

definition toUpperCase :: "char \<Rightarrow> char" where
  "toUpperCase c =
     (if 97 \<le> (of_char c :: nat) \<and> (of_char c :: nat) \<le> 122
      then Char (digit0 c) (digit1 c) (digit2 c) (digit3 c) (digit4 c) False (digit6 c) (digit7 c)
      else c)"

fun capitalized :: "string \<Rightarrow> string" where
  "capitalized [] = []"
| "capitalized (c # cs) = toUpperCase c # cs"

fun root_type :: "schema \<Rightarrow> operation_type \<Rightarrow> string option" where
  "root_type s Query = getQueryType s"
| "root_type s Mutation = getMutationType s"
| "root_type s Subscription = getSubscriptionType s"

definition hasInputs :: "operation_definition_node \<Rightarrow> bool" where
  "hasInputs definition =
     (case od_variableDefinitions definition of
        None \<Rightarrow> False
      | Some variableDefinitions \<Rightarrow> length variableDefinitions > 0)"

text \<open>
  The first statement of the source that needs the name is \<^verbatim>\<open>definition.name!.value\<close>: on a
  definition without a name it throws before anything else is done. \<^verbatim>\<open>properties\<close> is the
  list after the \<^verbatim>\<open>splice(0, 0, ...)\<close> that puts \<open>input\<close> in front of \<open>data\<close>.
\<close>

definition generateOperationTypeDefs ::
  "config \<Rightarrow> operation_definition_node \<Rightarrow> error + statement list" where
  "generateOperationTypeDefs config definition =
     (case od_name definition of
        None \<Rightarrow> Inl TypeError
      | Some name \<Rightarrow>
          (let inputTypeName = name @ ''$input'';
               shapeTypeName = name @ ''$result'';
               afterLoadTypeName = name @ ''$afterLoad'';
               operation = od_operation definition
           in case root_type (config_schema config) operation of
                None \<Rightarrow> Inl (Error ''Could not find root type for document'')
              | Some type \<Rightarrow>
                  (let shapeType = name @ capitalized (operation_string operation);
                       inputType = shapeType @ ''Variables'';
                       properties =
                         (if hasInputs definition
                          then [readonlyProperty (TSPropertySignature ''input''
                                  (TSTypeLiteral [readonlyProperty (TSPropertySignature name
                                     (TSTypeReference inputTypeName) False False)]) False False)]
                          else [])
                         @ [readonlyProperty (TSPropertySignature ''data''
                              (TSTypeLiteral [readonlyProperty (TSPropertySignature name
                                 (TSTypeReference shapeTypeName) False False)]) False False)]
                   in Inr
                     ([internalTypeImport config shapeType]
                      @ (if hasInputs definition
                         then [internalTypeImport config inputType,
                               ExportNamedDeclaration
                                 (TSTypeAliasDeclaration inputTypeName (TSTypeReference inputType))]
                         else [])
                      @ [ExportNamedDeclaration
                           (TSTypeAliasDeclaration name
                              (TSTypeLiteral
                                 [readonlyProperty (TSPropertySignature ''input''
                                    (if hasInputs definition
                                     then TSTypeReference inputTypeName
                                     else TSNullKeyword) False False),
                                  readonlyProperty (TSPropertySignature ''result''
                                    (if operation = Mutation
                                     then TSTypeReference shapeTypeName
                                     else TSUnionType
                                            [TSTypeReference shapeTypeName, TSUndefinedKeyword])
                                    False False)])),
                         ExportNamedDeclaration
                           (TSTypeAliasDeclaration shapeTypeName (TSTypeReference shapeType))]
                      @ (if operation = Query
                         then [ExportNamedDeclaration
                                 (TSTypeAliasDeclaration afterLoadTypeName
                                    (TSTypeLiteral properties))]
                         else [])))))"

subsection \<open>Fragments\<close>

definition generateFragmentTypeDefs ::
  "config \<Rightarrow> fragment_definition_node \<Rightarrow> error + statement list" where
  "generateFragmentTypeDefs config definition =
     (let propTypeName = fd_name definition;
          shapeTypeName = fd_name definition @ ''$data''
      in case getType (config_schema config) (fd_typeCondition definition) of
           None \<Rightarrow> Inl (Error ''Should not get here'')
         | Some type \<Rightarrow>
             (let internalType = fd_name definition @ ''Fragment''
              in Inr
                [internalTypeImport config internalType,
                 ExportNamedDeclaration
                   (TSTypeAliasDeclaration propTypeName
                      (TSTypeLiteral
                         [readonlyProperty (TSPropertySignature ''shape''
                            (TSTypeReference shapeTypeName) True False),
                          readonlyProperty (TSPropertySignature fragmentKey
                            (TSTypeLiteral
                               [TSPropertySignature propTypeName (TSLiteralType True) False False])
                            False False)])),
                 ExportNamedDeclaration
                   (TSTypeAliasDeclaration shapeTypeName (TSTypeReference internalType))]))"

subsection \<open>typescriptGenerator: one program per document\<close>

text \<open>
  The predicate of \<^verbatim>\<open>originalDocument.definitions.find\<close>: the definition is an operation or a
  fragment and \<^verbatim>\<open>def.name?.value === name\<close>. A definition without a name gives
  \<^verbatim>\<open>undefined\<close> there, which is never equal to the string \<open>name\<close>.
\<close>

fun matches_name :: "string \<Rightarrow> definition_node \<Rightarrow> bool" where
  "matches_name name (OperationDef d) = (od_name d = Some name)"
| "matches_name name (FragmentDef d) = (fd_name d = name)"

text \<open>
  When nothing is found the source takes the fragment branch with \<^verbatim>\<open>undefined\<close>, and
  reading its name throws.
\<close>

definition artifact_program :: "config \<Rightarrow> collected_document \<Rightarrow> error + statement list" where
  "artifact_program config doc =
     (case find (matches_name (cd_name doc)) (definitions (cd_originalDocument doc)) of
        Some (OperationDef definition) \<Rightarrow> generateOperationTypeDefs config definition
      | Some (FragmentDef definition) \<Rightarrow> generateFragmentTypeDefs config definition
      | None \<Rightarrow> Inl TypeError)"



subsection \<open>The index file\<close>

text \<open>
  \<^verbatim>\<open>.replace(/\.[^/.]+\.[^/.]+$/, '')\<close>. \<open>segment_char\<close> is the class \<^verbatim>\<open>[^/.]\<close>.
  \<open>matches_dts s\<close>: the pattern matches the whole of \<open>s\<close>, that is a dot, one or
  more class characters, a dot, one or more class characters, the end. The first run is
  followed by a dot, which is not of the class, so it is the longest run. \<open>replace_dts\<close>
  deletes the leftmost match; a match reaches the end of the string.
\<close>

definition segment_char :: "char \<Rightarrow> bool" where
  "segment_char c = (c \<noteq> CHR ''/'' \<and> c \<noteq> CHR ''.'')"

fun matches_dts :: "string \<Rightarrow> bool" where
  "matches_dts [] = False"
| "matches_dts (c # cs) =
     (c = CHR ''.'' \<and> takeWhile segment_char cs \<noteq> [] \<and>
      (case dropWhile segment_char cs of
         [] \<Rightarrow> False
       | d # rest \<Rightarrow> d = CHR ''.'' \<and> rest \<noteq> [] \<and> list_all segment_char rest))"

fun replace_dts :: "string \<Rightarrow> string" where
  "replace_dts [] = []"
| "replace_dts (c # cs) = (if matches_dts (c # cs) then [] else c # replace_dts cs)"

text \<open>
  \<open>relative typePath\<close> stands for
  \<^verbatim>\<open>path.relative(path.resolve(config.typeIndexPath, '..'), typePath)\<close> of Node's path
  module.
\<close>

definition typeIndex :: "(string \<Rightarrow> string) \<Rightarrow> string list \<Rightarrow> statement list" where
  "typeIndex relative typePaths =
     map (\<lambda>typePath. ExportAllDeclaration (''./'' @ replace_dts (relative typePath))) typePaths
     @ [ExportAllDeclaration ''./runtime'', ExportAllDeclaration ''./stores'']"

subsection \<open>Reading a generated program\<close>

fun exported_type_aliases :: "statement list \<Rightarrow> (string \<times> ts_type) list" where
  "exported_type_aliases [] = []"
| "exported_type_aliases (ExportNamedDeclaration (TSTypeAliasDeclaration n t) # ss) =
     (n, t) # exported_type_aliases ss"
| "exported_type_aliases (s # ss) = exported_type_aliases ss"

fun imported_types :: "statement list \<Rightarrow> (string \<times> string \<times> string) list" where
  "imported_types [] = []"
| "imported_types (ImportDeclaration i src k # ss) = (i, src, k) # imported_types ss"
| "imported_types (s # ss) = imported_types ss"


section \<open>Example inputs\<close>

definition internal_by_name :: "directive_node \<Rightarrow> bool" where
  "internal_by_name d = (dir_name d = ''internal'')"

text \<open>\<^verbatim>\<open>query Q($id: ID! @internal) @live { field @internal(arg: $id) @include(if: true) }\<close>\<close>

definition example_directives :: document_node where
  "example_directives = Document [OperationDef (OperationDefinition Query (Some ''Q'')
     (Some [VariableDefinition ''id'' (NonNullType (NamedType ''ID'')) None
              [ConstDirective ''internal'' []]])
     [Directive ''live'' []]
     [FieldNode None ''field'' []
        [Directive ''internal'' [Argument ''arg'' (Variable ''id'')],
         Directive ''include'' [Argument ''if'' (BooleanValue True)]] None])]"

text \<open>\<^verbatim>\<open>query Q($id: ID!) { field @internal(arg: $id) }\<close> and \<^verbatim>\<open>query Q { field }\<close>\<close>

definition example_only_internal :: document_node where
  "example_only_internal = Document [OperationDef (OperationDefinition Query (Some ''Q'')
     (Some [VariableDefinition ''id'' (NonNullType (NamedType ''ID'')) None []]) []
     [FieldNode None ''field'' [] [Directive ''internal'' [Argument ''arg'' (Variable ''id'')]]
        None])]"

definition example_only_internal_scrubbed :: document_node where
  "example_only_internal_scrubbed = Document [OperationDef (OperationDefinition Query (Some ''Q'')
     (Some []) [] [FieldNode None ''field'' [] [] None])]"

text \<open>\<^verbatim>\<open>query Q($id: ID!) { node(id: $id) @internal }\<close> and \<^verbatim>\<open>query Q($id: ID!) { node(id: $id) }\<close>\<close>

definition example_both :: document_node where
  "example_both = Document [OperationDef (OperationDefinition Query (Some ''Q'')
     (Some [VariableDefinition ''id'' (NonNullType (NamedType ''ID'')) None []]) []
     [FieldNode None ''node'' [Argument ''id'' (Variable ''id'')] [Directive ''internal'' []]
        None])]"

definition example_both_scrubbed :: document_node where
  "example_both_scrubbed = Document [OperationDef (OperationDefinition Query (Some ''Q'')
     (Some [VariableDefinition ''id'' (NonNullType (NamedType ''ID'')) None []]) []
     [FieldNode None ''node'' [Argument ''id'' (Variable ''id'')] [] None])]"

text \<open>\<^verbatim>\<open>query Q($id: ID!, $x: Int) { node(id: $id) @internal(arg: $x) }\<close>\<close>

definition example_two_variables :: document_node where
  "example_two_variables = Document [OperationDef (OperationDefinition Query (Some ''Q'')
     (Some [VariableDefinition ''id'' (NonNullType (NamedType ''ID'')) None [],
            VariableDefinition ''x'' (NamedType ''Int'') None []]) []
     [FieldNode None ''node'' [Argument ''id'' (Variable ''id'')]
        [Directive ''internal'' [Argument ''arg'' (Variable ''x'')]] None])]"

text \<open>\<^verbatim>\<open>query Q($id: ID!) { ...F }\<close>: the fragment that uses \<^verbatim>\<open>$id\<close> is in another document.\<close>

definition example_spread :: document_node where
  "example_spread = Document [OperationDef (OperationDefinition Query (Some ''Q'')
     (Some [VariableDefinition ''id'' (NonNullType (NamedType ''ID'')) None []]) []
     [FragmentSpread ''F'' []])]"

definition example_spread_scrubbed :: document_node where
  "example_spread_scrubbed = Document [OperationDef (OperationDefinition Query (Some ''Q'')
     (Some []) [] [FragmentSpread ''F'' []])]"

text \<open>\<^verbatim>\<open>query Q($id: ID!) { node(id: $id) @include(if: true) }\<close>\<close>

definition example_no_internal :: document_node where
  "example_no_internal = Document [OperationDef (OperationDefinition Query (Some ''Q'')
     (Some [VariableDefinition ''id'' (NonNullType (NamedType ''ID'')) None []]) []
     [FieldNode None ''node'' [Argument ''id'' (Variable ''id'')]
        [Directive ''include'' [Argument ''if'' (BooleanValue True)]] None])]"

text \<open>
  A schema with the three root types and the type \<open>User\<close>, and a schema with the types
  \<open>Query\<close> and \<open>User\<close> whose only root type is \<open>Query\<close>
  (\<^verbatim>\<open>type Query { user: User }  type User { name: String }\<close>).
\<close>

definition example_config :: config where
  "example_config =
     \<lparr> config_schema =
         \<lparr> getQueryType = Some ''Query'', getMutationType = Some ''Mutation'',
           getSubscriptionType = Some ''Subscription'',
           getType = (\<lambda>n. if n = ''Query'' \<or> n = ''Mutation'' \<or> n = ''Subscription'' \<or> n = ''User''
                         then Some n else None) \<rparr>,
       config_isInternalDirective = internal_by_name,
       internalTypeDefinitionFile = ''$houdini/graphql.d.ts'',
       internalTypeDefinitionFileName = ''graphql'',
       artifactTypePath = (\<lambda>d. ''artifacts/doc.d.ts'') \<rparr>"




text \<open>\<^verbatim>\<open>query Hello($id: ID) { node(id: $id) }\<close>, \<^verbatim>\<open>mutation DoThing { doThing }\<close>,
  \<^verbatim>\<open>subscription Watch { tick }\<close>, \<^verbatim>\<open>query { field }\<close>\<close>

definition hello_query :: operation_definition_node where
  "hello_query = OperationDefinition Query (Some ''Hello'')
     (Some [VariableDefinition ''id'' (NamedType ''ID'') None []]) []
     [FieldNode None ''node'' [Argument ''id'' (Variable ''id'')] [] None]"

definition do_thing_mutation :: operation_definition_node where
  "do_thing_mutation = OperationDefinition Mutation (Some ''DoThing'') (Some []) []
     [FieldNode None ''doThing'' [] [] None]"

definition watch_subscription :: operation_definition_node where
  "watch_subscription = OperationDefinition Subscription (Some ''Watch'') (Some []) []
     [FieldNode None ''tick'' [] [] None]"

definition anonymous_query :: operation_definition_node where
  "anonymous_query = OperationDefinition Query None (Some []) []
     [FieldNode None ''field'' [] [] None]"

text \<open>\<^verbatim>\<open>fragment UserInfo on User { name }\<close> and \<^verbatim>\<open>fragment Lost on Nothing { name }\<close>\<close>

definition user_info_fragment :: fragment_definition_node where
  "user_info_fragment = FragmentDefinition ''UserInfo'' None ''User'' []
     [FieldNode None ''name'' [] [] None]"

definition lost_fragment :: fragment_definition_node where
  "lost_fragment = FragmentDefinition ''Lost'' None ''Nothing'' []
     [FieldNode None ''name'' [] [] None]"

definition hello_document :: collected_document where
  "hello_document =
     \<lparr> cd_name = ''Hello'',
       cd_document = Document [OperationDef anonymous_query, OperationDef hello_query],
       cd_originalDocument = Document [OperationDef anonymous_query, OperationDef hello_query],
       cd_generateStore = True,
       cd_generateArtifact = True \<rparr>"




section \<open>Properties of scrubSelection\<close>

subsection \<open>The first traversal\<close>

lemma visit1_value_refs:
  "visit1_value v U = U \<union> set (var_refs_value v)"
  "visit1_values vs U = U \<union> set (var_refs_values vs)"
  "visit1_object_fields fs U = U \<union> set (var_refs_object_fields fs)"
  by (induction v U and vs U and fs U rule: visit1_value_visit1_values_visit1_object_fields.induct)
     auto

lemma visit1_arguments_refs: "visit1_arguments as U = U \<union> set (var_refs_arguments as)"
  by (induction as U rule: visit1_arguments.induct) (auto simp: visit1_value_refs)

lemma visit1_directives_eq:
  "visit1_directives P ds U =
     (filter (\<lambda>d. \<not> P d) ds, U \<union> set (var_refs_directives (\<lambda>d. \<not> P d) ds))"
  by (induction P ds U rule: visit1_directives.induct) (auto simp: visit1_arguments_refs)

lemma var_refs_directives_filter:
  "var_refs_directives (\<lambda>_. True) (filter (\<lambda>d. \<not> P d) ds) = var_refs_directives (\<lambda>d. \<not> P d) ds"
  by (induction ds) auto

lemma visit1_selection_snd:
  "snd (visit1_selection P s U) = U \<union> set (var_refs_selection (\<lambda>d. \<not> P d) s)"
  "snd (visit1_selections P ss U) = U \<union> set (var_refs_selections (\<lambda>d. \<not> P d) ss)"
  by (induction s and ss arbitrary: U and U rule: directives_selection_directives_selections.induct)
     (auto simp: visit1_directives_eq visit1_arguments_refs split_def split: option.splits)

lemma visit1_selection_directives:
  "directives_selection (fst (visit1_selection P s U)) =
     filter (\<lambda>d. \<not> P d) (directives_selection s)"
  "directives_selections (fst (visit1_selections P ss U)) =
     filter (\<lambda>d. \<not> P d) (directives_selections ss)"
  by (induction s and ss arbitrary: U and U rule: directives_selection_directives_selections.induct)
     (auto simp: visit1_directives_eq split_def split: option.splits)

lemma visit1_selection_refs:
  "var_refs_selection (\<lambda>_. True) (fst (visit1_selection P s U)) =
     var_refs_selection (\<lambda>d. \<not> P d) s"
  "var_refs_selections (\<lambda>_. True) (fst (visit1_selections P ss U)) =
     var_refs_selections (\<lambda>d. \<not> P d) ss"
  by (induction s and ss arbitrary: U and U rule: directives_selection_directives_selections.induct)
     (auto simp: visit1_directives_eq var_refs_directives_filter split_def split: option.splits)

lemma visit1_selection_id:
  "(\<forall>d\<in>set (directives_selection s). \<not> P d) \<Longrightarrow> fst (visit1_selection P s U) = s"
  "(\<forall>d\<in>set (directives_selections ss). \<not> P d) \<Longrightarrow> fst (visit1_selections P ss U) = ss"
  by (induction s and ss arbitrary: U and U rule: directives_selection_directives_selections.induct)
     (auto simp: visit1_directives_eq split_def split: option.splits)

lemma visit1_const_directives_eq:
  "visit1_const_directives P ds = filter (\<lambda>d. \<not> P (directive_of_const d)) ds"
  by (induction ds) auto

lemma vd_fields_visit1:
  "vd_variable (visit1_variable_definition P vd) = vd_variable vd"
  "vd_type (visit1_variable_definition P vd) = vd_type vd"
  "vd_defaultValue (visit1_variable_definition P vd) = vd_defaultValue vd"
  "vd_directives (visit1_variable_definition P vd) =
     filter (\<lambda>d. \<not> P (directive_of_const d)) (vd_directives vd)"
  by (cases vd; simp add: visit1_const_directives_eq)+

lemma variable_definitions_of_visit1:
  "variable_definitions_of (fst (visit1_definition P d U)) =
     map (visit1_variable_definition P) (variable_definitions_of d)"
  by (induction P d U rule: visit1_definition.induct)
     (auto simp: split_def visit1_directives_eq split: option.splits)

lemma visit1_definition_snd:
  "snd (visit1_definition P d U) = U \<union> set (var_refs_definition (\<lambda>d. \<not> P d) d)"
  by (induction P d U rule: visit1_definition.induct)
     (auto simp: split_def visit1_directives_eq visit1_selection_snd)

lemma visit1_definition_refs:
  "var_refs_definition (\<lambda>_. True) (fst (visit1_definition P d U)) =
     var_refs_definition (\<lambda>d. \<not> P d) d"
  by (induction P d U rule: visit1_definition.induct)
     (auto simp: split_def visit1_directives_eq visit1_selection_refs var_refs_directives_filter)

lemma vardef_directives_visit1:
  "concat (map (\<lambda>vd. map directive_of_const (vd_directives vd))
       (map (visit1_variable_definition P) vds)) =
     filter (\<lambda>d. \<not> P d) (concat (map (\<lambda>vd. map directive_of_const (vd_directives vd)) vds))"
  by (induction vds) (auto simp: vd_fields_visit1 filter_map comp_def)

lemma visit1_definition_directives:
  "directives_definition (fst (visit1_definition P d U)) =
     filter (\<lambda>d. \<not> P d) (directives_definition d)"
proof (cases d)
  case (OperationDef od)
  then show ?thesis
    using vardef_directives_visit1 [of P "variable_definitions_of d"]
    by (cases od)
       (auto simp: split_def visit1_directives_eq visit1_selection_directives split: option.splits)
next
  case (FragmentDef fd)
  then show ?thesis
    using vardef_directives_visit1 [of P "variable_definitions_of d"]
    by (cases fd)
       (auto simp: split_def visit1_directives_eq visit1_selection_directives split: option.splits)
qed

lemma vardef_directives_id:
  "(\<forall>d\<in>set (concat (map (\<lambda>vd. map directive_of_const (vd_directives vd)) vds)). \<not> P d)
     \<Longrightarrow> map (visit1_variable_definition P) vds = vds"
proof (induction vds)
  case Nil
  then show ?case by simp
next
  case (Cons vd vds)
  then have "filter (\<lambda>d. \<not> P (directive_of_const d)) (vd_directives vd) = vd_directives vd"
    by (auto intro: filter_True)
  then have "visit1_variable_definition P vd = vd"
    by (cases vd) (simp add: visit1_const_directives_eq)
  with Cons show ?case by simp
qed

lemma visit1_definition_id:
  assumes "\<forall>x\<in>set (directives_definition d). \<not> P x"
  shows "fst (visit1_definition P d U) = d"
proof (cases d)
  case (OperationDef od)
  then show ?thesis
    using assms vardef_directives_id [of "variable_definitions_of d" P]
    by (cases od)
       (auto simp: split_def visit1_directives_eq visit1_selection_id split: option.splits)
next
  case (FragmentDef fd)
  then show ?thesis
    using assms vardef_directives_id [of "variable_definitions_of d" P]
    by (cases fd)
       (auto simp: split_def visit1_directives_eq visit1_selection_id split: option.splits)
qed

lemma visit1_definitions_snd:
  "snd (visit1_definitions P ds U) =
     U \<union> set (concat (map (var_refs_definition (\<lambda>d. \<not> P d)) ds))"
  by (induction ds arbitrary: U) (auto simp: split_def visit1_definition_snd)

lemma visit1_definitions_refs:
  "concat (map (var_refs_definition (\<lambda>_. True)) (fst (visit1_definitions P ds U))) =
     concat (map (var_refs_definition (\<lambda>d. \<not> P d)) ds)"
  by (induction ds arbitrary: U) (simp_all add: split_def visit1_definition_refs)

lemma visit1_definitions_directives:
  "concat (map directives_definition (fst (visit1_definitions P ds U))) =
     filter (\<lambda>d. \<not> P d) (concat (map directives_definition ds))"
  by (induction ds arbitrary: U) (simp_all add: split_def visit1_definition_directives)

lemma visit1_definitions_vardefs:
  "concat (map variable_definitions_of (fst (visit1_definitions P ds U))) =
     map (visit1_variable_definition P) (concat (map variable_definitions_of ds))"
  by (induction ds arbitrary: U) (simp_all add: split_def variable_definitions_of_visit1)

lemma visit1_definitions_id:
  "(\<forall>x\<in>set (concat (map directives_definition ds)). \<not> P x)
     \<Longrightarrow> fst (visit1_definitions P ds U) = ds"
  by (induction ds arbitrary: U) (simp_all add: split_def visit1_definition_id)

subsection \<open>The second traversal\<close>

lemma visit2_variable_definitions_list:
  "(case visit2_variable_definitions V vds of None \<Rightarrow> [] | Some l \<Rightarrow> l) =
     filter (\<lambda>vd. vd_variable vd \<in> V) (case vds of None \<Rightarrow> [] | Some l \<Rightarrow> l)"
  by (cases vds) simp_all

lemma visit2_variable_definitions_id:
  "(\<forall>vd\<in>set (case vds of None \<Rightarrow> [] | Some l \<Rightarrow> l). vd_variable vd \<in> V)
     \<Longrightarrow> visit2_variable_definitions V vds = vds"
  by (cases vds) simp_all

lemma visit2_definition_refs:
  "var_refs_definition keep (visit2_definition V d) = var_refs_definition keep d"
  by (induction V d rule: visit2_definition.induct) simp_all

lemma visit2_definition_vardefs:
  "variable_definitions_of (visit2_definition V d) =
     filter (\<lambda>vd. vd_variable vd \<in> V) (variable_definitions_of d)"
  by (induction V d rule: visit2_definition.induct)
     (simp_all add: visit2_variable_definitions_list)

lemma visit2_definition_directives:
  "set (directives_definition (visit2_definition V d)) \<subseteq> set (directives_definition d)"
  by (induction V d rule: visit2_definition.induct)
     (auto simp: visit2_variable_definitions_list)

lemma visit2_definition_id:
  "(\<forall>vd\<in>set (variable_definitions_of d). vd_variable vd \<in> V) \<Longrightarrow> visit2_definition V d = d"
  by (induction V d rule: visit2_definition.induct)
     (simp_all add: visit2_variable_definitions_id)

lemma visit2_definitions_vardefs:
  "concat (map variable_definitions_of (map (visit2_definition V) ds)) =
     filter (\<lambda>vd. vd_variable vd \<in> V) (concat (map variable_definitions_of ds))"
  by (induction ds) (simp_all add: visit2_definition_vardefs)

lemma visit2_definitions_refs:
  "concat (map (var_refs_definition keep) (map (visit2_definition V) ds)) =
     concat (map (var_refs_definition keep) ds)"
  by (induction ds) (simp_all add: visit2_definition_refs)

lemma visit2_definitions_directives:
  "set (concat (map directives_definition (map (visit2_definition V) ds))) \<subseteq>
     set (concat (map directives_definition ds))"
proof (induction ds)
  case Nil
  show ?case by simp
next
  case (Cons d ds)
  show ?case
    using Cons.IH visit2_definition_directives [of V d] by auto
qed

lemma visit2_definitions_id:
  "(\<forall>vd\<in>set (concat (map variable_definitions_of ds)). vd_variable vd \<in> V)
     \<Longrightarrow> map (visit2_definition V) ds = ds"
  by (induction ds) (simp_all add: visit2_definition_id)

subsection \<open>Both traversals\<close>

lemma scrubSelection_eq:
  "scrubSelection P (Document defs) =
     Document (map (visit2_definition (set (concat (map (var_refs_definition (\<lambda>d. \<not> P d)) defs))))
       (fst (visit1_definitions P defs {})))"
  by (simp add: scrubSelection_def split_def visit1_definitions_snd)

lemma scrubSelection_directives:
  "set (directives_document (scrubSelection P D)) \<subseteq> {d \<in> set (directives_document D). \<not> P d}"
proof (cases D)
  case (Document defs)
  have "set (directives_document (scrubSelection P D)) \<subseteq>
      set (concat (map directives_definition (fst (visit1_definitions P defs {}))))"
    unfolding Document scrubSelection_eq directives_document.simps
    by (rule visit2_definitions_directives)
  also have "\<dots> = {d \<in> set (directives_document D). \<not> P d}"
    by (simp only: visit1_definitions_directives Document directives_document.simps set_filter)
  finally show ?thesis .
qed

lemma scrubSelection_var_refs:
  "var_refs_document (\<lambda>_. True) (scrubSelection P D) = var_refs_document (\<lambda>d. \<not> P d) D"
proof (cases D)
  case (Document defs)
  show ?thesis
    unfolding Document scrubSelection_eq var_refs_document.simps
    by (simp only: visit2_definitions_refs visit1_definitions_refs)
qed

lemma scrubSelection_variable_definitions:
  "variable_definitions_document (scrubSelection P D) =
     filter (\<lambda>vd. vd_variable vd \<in> set (var_refs_document (\<lambda>d. \<not> P d) D))
       (map (visit1_variable_definition P) (variable_definitions_document D))"
proof (cases D)
  case (Document defs)
  show ?thesis
    unfolding Document scrubSelection_eq variable_definitions_document.simps
    by (simp only: visit2_definitions_vardefs visit1_definitions_vardefs var_refs_document.simps)
qed

lemma visit1_document_id:
  "(\<forall>d\<in>set (directives_document D). \<not> P d) \<Longrightarrow> fst (visit1_document P D U) = D"
  by (cases D) (simp add: split_def visit1_definitions_id)

lemma var_refs_document_no_internal:
  assumes "\<forall>d\<in>set (directives_document D). \<not> P d"
  shows "var_refs_document (\<lambda>d. \<not> P d) D = var_refs_document (\<lambda>_. True) D"
proof (cases D)
  case (Document defs)
  with assms have "fst (visit1_definitions P defs {}) = defs"
    by (simp add: visit1_definitions_id)
  then show ?thesis
    using visit1_definitions_refs [of P defs "{}"] by (simp add: Document)
qed

subsection \<open>Internal directives are removed\<close>

text \<open>
  Claim C1. For every document \<open>D\<close> and every predicate \<open>isInternalDirective\<close>, no
  directive node of \<open>scrubSelection isInternalDirective D\<close> satisfies
  \<open>isInternalDirective\<close>. The directive nodes of a document are those on its variable
  definitions, on its operations and fragments, and in its selections.
\<close>

theorem scrub_removes_internal_directives:
  "\<forall>d\<in>set (directives_document (scrubSelection isInternalDirective D)).
     \<not> isInternalDirective d"
  using scrubSelection_directives [of isInternalDirective D] by blast

theorem scrub_removes_internal_directives_witness:
  "directives_document (scrubSelection internal_by_name example_directives) =
     [Directive ''live'' [], Directive ''include'' [Argument ''if'' (BooleanValue True)]]
   \<and> \<not> internal_by_name (Directive ''live'' [])
   \<and> \<not> internal_by_name (Directive ''include'' [Argument ''if'' (BooleanValue True)])"
proof -
  have d: "directives_document (scrubSelection internal_by_name example_directives) =
     [Directive ''live'' [], Directive ''include'' [Argument ''if'' (BooleanValue True)]]"
    by (simp add: example_directives_def scrubSelection_def internal_by_name_def)
  from scrub_removes_internal_directives [of internal_by_name example_directives]
  show ?thesis unfolding d by simp
qed

subsection \<open>Variable definitions that remain are referenced\<close>

text \<open>
  Claim C2. For every document \<open>D\<close>, every variable definition that remains in
  \<open>scrubSelection isInternalDirective D\<close> has a \<open>Variable\<close> node of its name in the
  scrubbed document that is not a defined variable; and a variable with no reference
  outside the internal directives of \<open>D\<close> (one referenced only inside removed directives)
  has no definition in the scrubbed document. The witness adds the spec's example:
  \<^verbatim>\<open>query Q($id: ID!) { field @internal(arg: $id) }\<close> scrubs to \<^verbatim>\<open>query Q { field }\<close>.
\<close>

theorem scrub_remaining_definitions_referenced:
  "(\<forall>vd\<in>set (variable_definitions_document (scrubSelection isInternalDirective D)).
      vd_variable vd \<in> set (var_refs_document (\<lambda>_. True) (scrubSelection isInternalDirective D)))
   \<and> (\<forall>n. n \<notin> set (var_refs_document (\<lambda>d. \<not> isInternalDirective d) D) \<longrightarrow>
          n \<notin> vd_variable ` set (variable_definitions_document (scrubSelection isInternalDirective D)))"
  unfolding scrubSelection_var_refs scrubSelection_variable_definitions
  by (auto simp: vd_fields_visit1)

theorem scrub_remaining_definitions_referenced_witness:
  "variable_definitions_document (scrubSelection internal_by_name example_two_variables) =
     [VariableDefinition ''id'' (NonNullType (NamedType ''ID'')) None []]
   \<and> ''id'' \<in> set (var_refs_document (\<lambda>_. True)
        (scrubSelection internal_by_name example_two_variables))
   \<and> ''x'' \<notin> set (var_refs_document (\<lambda>d. \<not> internal_by_name d) example_two_variables)
   \<and> ''x'' \<notin> vd_variable ` set (variable_definitions_document
        (scrubSelection internal_by_name example_two_variables))
   \<and> scrubSelection internal_by_name example_only_internal = example_only_internal_scrubbed"
proof -
  have v: "variable_definitions_document (scrubSelection internal_by_name example_two_variables) =
     [VariableDefinition ''id'' (NonNullType (NamedType ''ID'')) None []]"
    by (simp add: example_two_variables_def scrubSelection_def internal_by_name_def)
  have x: "''x'' \<notin> set (var_refs_document (\<lambda>d. \<not> internal_by_name d) example_two_variables)"
    by (simp add: example_two_variables_def internal_by_name_def)
  have e: "scrubSelection internal_by_name example_only_internal = example_only_internal_scrubbed"
    by (simp add: example_only_internal_def example_only_internal_scrubbed_def
         scrubSelection_def internal_by_name_def)
  from scrub_remaining_definitions_referenced [of internal_by_name example_two_variables] x
  have "''id'' \<in> set (var_refs_document (\<lambda>_. True)
          (scrubSelection internal_by_name example_two_variables))"
    and "''x'' \<notin> vd_variable ` set (variable_definitions_document
          (scrubSelection internal_by_name example_two_variables))"
    unfolding v by simp_all
  with v x e show ?thesis by simp
qed

subsection \<open>Variables used in a retained place keep their definition\<close>

text \<open>
  Claim C3. For every document \<open>D\<close>, a variable definition of \<open>D\<close> whose variable is
  referenced in a retained part of \<open>D\<close> (outside the internal directives) is still defined
  in \<open>scrubSelection isInternalDirective D\<close>, with the same type and default value and its
  own directives scrubbed, whether or not an internal directive references it as well. The
  witness is the spec's example: \<^verbatim>\<open>query Q($id: ID!) { node(id: $id) @internal }\<close> scrubs
  to \<^verbatim>\<open>query Q($id: ID!) { node(id: $id) }\<close>.
\<close>

theorem scrub_keeps_referenced_definition:
  assumes "vd \<in> set (variable_definitions_document D)"
    and "vd_variable vd \<in> set (var_refs_document (\<lambda>d. \<not> isInternalDirective d) D)"
  shows "\<exists>vd'. vd' \<in> set (variable_definitions_document (scrubSelection isInternalDirective D))
     \<and> vd_variable vd' = vd_variable vd \<and> vd_type vd' = vd_type vd
     \<and> vd_defaultValue vd' = vd_defaultValue vd
     \<and> vd_directives vd' =
         filter (\<lambda>d. \<not> isInternalDirective (directive_of_const d)) (vd_directives vd)"
proof -
  let ?vd' = "visit1_variable_definition isInternalDirective vd"
  have "?vd' \<in> set (variable_definitions_document (scrubSelection isInternalDirective D))"
    using assms by (simp add: scrubSelection_variable_definitions vd_fields_visit1)
  then show ?thesis
    by (intro exI [of _ ?vd']) (simp add: vd_fields_visit1)
qed

theorem scrub_keeps_referenced_definition_witness:
  "VariableDefinition ''id'' (NonNullType (NamedType ''ID'')) None []
     \<in> set (variable_definitions_document example_both)
   \<and> ''id'' \<in> set (var_refs_document (\<lambda>d. \<not> internal_by_name d) example_both)
   \<and> (\<exists>vd'. vd' \<in> set (variable_definitions_document
                 (scrubSelection internal_by_name example_both))
        \<and> vd_variable vd' = ''id'' \<and> vd_type vd' = NonNullType (NamedType ''ID'')
        \<and> vd_defaultValue vd' = None \<and> vd_directives vd' = [])
   \<and> scrubSelection internal_by_name example_both = example_both_scrubbed"
proof -
  let ?vd = "VariableDefinition ''id'' (NonNullType (NamedType ''ID'')) None []"
  have a: "?vd \<in> set (variable_definitions_document example_both)"
    by (simp add: example_both_def)
  have b: "vd_variable ?vd \<in> set (var_refs_document (\<lambda>d. \<not> internal_by_name d) example_both)"
    by (simp add: example_both_def internal_by_name_def)
  have e: "scrubSelection internal_by_name example_both = example_both_scrubbed"
    by (simp add: example_both_def example_both_scrubbed_def scrubSelection_def internal_by_name_def)
  from scrub_keeps_referenced_definition [OF a b] a b e show ?thesis by simp
qed

subsection \<open>Documents without internal directives\<close>

text \<open>
  Claim C9, as amended. For every document \<open>D\<close> in which no directive satisfies
  \<open>isInternalDirective\<close>, \<open>scrubSelection\<close> returns \<open>D\<close> with the variable definitions
  of unreferenced variables removed and nothing else changed; it returns \<open>D\<close> itself when
  every defined variable is referenced somewhere in \<open>D\<close>. \<open>scrubSelection\<close> has no error
  branch: it returns a document for every document.

  As stated (scrub is a no-op whenever no directive is internal) the claim fails:
  \<^verbatim>\<open>query Q($id: ID!) { ...F }\<close> has no directive at all and loses the definition of
  \<^verbatim>\<open>$id\<close>.
\<close>

theorem scrub_without_internal_directives:
  assumes "\<forall>d\<in>set (directives_document D). \<not> isInternalDirective d"
  shows "scrubSelection isInternalDirective D =
           visit2_document (set (var_refs_document (\<lambda>_. True) D)) D
     \<and> ((\<forall>vd\<in>set (variable_definitions_document D).
            vd_variable vd \<in> set (var_refs_document (\<lambda>_. True) D))
          \<longrightarrow> scrubSelection isInternalDirective D = D)"
proof -
  have 1: "fst (visit1_document isInternalDirective D {}) = D"
    using assms by (rule visit1_document_id)
  have 2: "snd (visit1_document isInternalDirective D {}) = set (var_refs_document (\<lambda>_. True) D)"
    using var_refs_document_no_internal [OF assms]
    by (cases D) (simp add: split_def visit1_definitions_snd)
  have 3: "scrubSelection isInternalDirective D =
           visit2_document (set (var_refs_document (\<lambda>_. True) D)) D"
    using 1 2 by (simp add: scrubSelection_def split_def)
  have "visit2_document V D = D"
    if "\<forall>vd\<in>set (variable_definitions_document D). vd_variable vd \<in> V" for V
  proof (cases D)
    case (Document defs)
    from that have "map (visit2_definition V) defs = defs"
      unfolding Document variable_definitions_document.simps by (rule visit2_definitions_id)
    then show ?thesis by (simp only: Document visit2_document.simps)
  qed
  with 3 show ?thesis by simp
qed

theorem scrub_without_internal_directives_witness:
  "directives_document example_no_internal =
     [Directive ''include'' [Argument ''if'' (BooleanValue True)]]
   \<and> \<not> internal_by_name (Directive ''include'' [Argument ''if'' (BooleanValue True)])
   \<and> map vd_variable (variable_definitions_document example_no_internal) = [''id'']
   \<and> var_refs_document (\<lambda>_. True) example_no_internal = [''id'']
   \<and> scrubSelection internal_by_name example_no_internal = example_no_internal"
proof -
  have d: "directives_document example_no_internal =
     [Directive ''include'' [Argument ''if'' (BooleanValue True)]]"
    by (simp add: example_no_internal_def)
  have n: "\<not> internal_by_name (Directive ''include'' [Argument ''if'' (BooleanValue True)])"
    by (simp add: internal_by_name_def)
  have v: "map vd_variable (variable_definitions_document example_no_internal) = [''id'']"
    by (simp add: example_no_internal_def)
  have r: "var_refs_document (\<lambda>_. True) example_no_internal = [''id'']"
    by (simp add: example_no_internal_def)
  have h: "\<forall>d\<in>set (directives_document example_no_internal). \<not> internal_by_name d"
    unfolding d using n by simp
  have u: "\<forall>vd\<in>set (variable_definitions_document example_no_internal).
      vd_variable vd \<in> set (var_refs_document (\<lambda>_. True) example_no_internal)"
    unfolding r by (simp add: example_no_internal_def)
  from scrub_without_internal_directives [OF h] u
  have "scrubSelection internal_by_name example_no_internal = example_no_internal" by blast
  with d n v r show ?thesis by simp
qed

theorem scrub_not_noop_counterexample:
  "directives_document example_spread = []
   \<and> scrubSelection internal_by_name example_spread = example_spread_scrubbed
   \<and> example_spread_scrubbed \<noteq> example_spread"
  by (simp add: example_spread_def example_spread_scrubbed_def scrubSelection_def)


section \<open>Properties of the type generators\<close>

lemma readonlyProperty_simp:
  "readonlyProperty (TSPropertySignature k t opt ro) = TSPropertySignature k t opt True"
  by (simp add: readonlyProperty_def)

lemma generateOperationTypeDefs_ok:
  assumes "od_name def = Some n"
    and "root_type (config_schema cfg) (od_operation def) = Some ty"
  shows "generateOperationTypeDefs cfg def = Inr
     ([internalTypeImport cfg (n @ capitalized (operation_string (od_operation def)))]
      @ (if hasInputs def
         then [internalTypeImport cfg
                 (n @ capitalized (operation_string (od_operation def)) @ ''Variables''),
               ExportNamedDeclaration (TSTypeAliasDeclaration (n @ ''$input'')
                 (TSTypeReference
                    (n @ capitalized (operation_string (od_operation def)) @ ''Variables'')))]
         else [])
      @ [ExportNamedDeclaration (TSTypeAliasDeclaration n
           (TSTypeLiteral
              [TSPropertySignature ''input''
                 (if hasInputs def then TSTypeReference (n @ ''$input'') else TSNullKeyword)
                 False True,
               TSPropertySignature ''result''
                 (if od_operation def = Mutation then TSTypeReference (n @ ''$result'')
                  else TSUnionType [TSTypeReference (n @ ''$result''), TSUndefinedKeyword])
                 False True])),
         ExportNamedDeclaration (TSTypeAliasDeclaration (n @ ''$result'')
           (TSTypeReference (n @ capitalized (operation_string (od_operation def)))))]
      @ (if od_operation def = Query
         then [ExportNamedDeclaration (TSTypeAliasDeclaration (n @ ''$afterLoad'')
                 (TSTypeLiteral
                    ((if hasInputs def
                      then [TSPropertySignature ''input''
                              (TSTypeLiteral
                                 [TSPropertySignature n (TSTypeReference (n @ ''$input''))
                                    False True])
                              False True]
                      else [])
                     @ [TSPropertySignature ''data''
                          (TSTypeLiteral
                             [TSPropertySignature n (TSTypeReference (n @ ''$result''))
                                False True])
                          False True])))]
         else []))"
  using assms by (simp add: generateOperationTypeDefs_def Let_def readonlyProperty_simp)

subsection \<open>The root type of an operation\<close>

text \<open>
  Claim C4. For every named operation definition whose root type the schema declares, the
  generated program exports exactly one type alias under the operation's name. It is an
  object type with exactly two fields, both read-only and neither optional: \<open>input\<close>,
  which refers to \<open><Name>$input\<close> when the operation declares one or more variables and is
  the type \<open>null\<close> otherwise, and \<open>result\<close>, which refers to \<open><Name>$result\<close> for a
  mutation and is the union of \<open><Name>$result\<close> and \<open>undefined\<close> for a query or a
  subscription.
\<close>

theorem operation_root_type_fields:
  assumes "od_name def = Some n"
    and "root_type (config_schema cfg) (od_operation def) \<noteq> None"
  shows "\<exists>program. generateOperationTypeDefs cfg def = Inr program \<and>
     filter (\<lambda>a. fst a = n) (exported_type_aliases program) =
       [(n, TSTypeLiteral
          [TSPropertySignature ''input''
             (if hasInputs def then TSTypeReference (n @ ''$input'') else TSNullKeyword)
             False True,
           TSPropertySignature ''result''
             (if od_operation def = Mutation then TSTypeReference (n @ ''$result'')
              else TSUnionType [TSTypeReference (n @ ''$result''), TSUndefinedKeyword])
             False True])]"
proof -
  from assms(2) obtain ty where "root_type (config_schema cfg) (od_operation def) = Some ty"
    by blast
  from generateOperationTypeDefs_ok [OF assms(1) this] show ?thesis
    by (simp add: internalTypeImport_def)
qed

theorem operation_root_type_fields_witness:
  "od_name hello_query = Some ''Hello''
   \<and> root_type (config_schema example_config) (od_operation hello_query) = Some ''Query''
   \<and> hasInputs hello_query
   \<and> (\<exists>program. generateOperationTypeDefs example_config hello_query = Inr program \<and>
        filter (\<lambda>a. fst a = ''Hello'') (exported_type_aliases program) =
          [(''Hello'', TSTypeLiteral
             [TSPropertySignature ''input'' (TSTypeReference ''Hello$input'') False True,
              TSPropertySignature ''result''
                (TSUnionType [TSTypeReference ''Hello$result'', TSUndefinedKeyword])
                False True])])
   \<and> od_name do_thing_mutation = Some ''DoThing''
   \<and> root_type (config_schema example_config) (od_operation do_thing_mutation) = Some ''Mutation''
   \<and> \<not> hasInputs do_thing_mutation
   \<and> (\<exists>program. generateOperationTypeDefs example_config do_thing_mutation = Inr program \<and>
        filter (\<lambda>a. fst a = ''DoThing'') (exported_type_aliases program) =
          [(''DoThing'', TSTypeLiteral
             [TSPropertySignature ''input'' TSNullKeyword False True,
              TSPropertySignature ''result'' (TSTypeReference ''DoThing$result'') False True])])"
proof -
  have h: "od_name hello_query = Some ''Hello''"
    "root_type (config_schema example_config) (od_operation hello_query) = Some ''Query''"
    "hasInputs hello_query"
    by (simp_all add: example_config_def hello_query_def do_thing_mutation_def hasInputs_def)
  have m: "od_name do_thing_mutation = Some ''DoThing''"
    "root_type (config_schema example_config) (od_operation do_thing_mutation) = Some ''Mutation''"
    "\<not> hasInputs do_thing_mutation"
    by (simp_all add: example_config_def hello_query_def do_thing_mutation_def hasInputs_def)
  have q: "od_operation hello_query = Query" "od_operation do_thing_mutation = Mutation"
    by (simp_all add: example_config_def hello_query_def do_thing_mutation_def)
  have rh: "root_type (config_schema example_config) (od_operation hello_query) \<noteq> None"
    and rm: "root_type (config_schema example_config) (od_operation do_thing_mutation) \<noteq> None"
    using h(2) m(2) by simp_all
  from operation_root_type_fields [OF h(1) rh] operation_root_type_fields [OF m(1) rm] h m q
  show ?thesis by simp
qed

subsection \<open>The afterLoad type\<close>

text \<open>
  Claim C5. For every named operation definition whose root type the schema declares, the
  generated program exports a type alias \<open><Name>$afterLoad\<close> if and only if the operation
  is a query. It is an object type with the field \<open>data\<close> of type
  \<open>{ <Name>: <Name>$result }\<close>, and, when the operation declares variables, the field
  \<open>input\<close> of type \<open>{ <Name>: <Name>$input }\<close> in front of \<open>data\<close>.
\<close>

theorem operation_afterLoad_type:
  assumes "od_name def = Some n"
    and "root_type (config_schema cfg) (od_operation def) \<noteq> None"
  shows "\<exists>program. generateOperationTypeDefs cfg def = Inr program \<and>
     filter (\<lambda>a. fst a = n @ ''$afterLoad'') (exported_type_aliases program) =
       (if od_operation def = Query
        then [(n @ ''$afterLoad'', TSTypeLiteral
               ((if hasInputs def
                 then [TSPropertySignature ''input''
                         (TSTypeLiteral
                            [TSPropertySignature n (TSTypeReference (n @ ''$input'')) False True])
                         False True]
                 else [])
                @ [TSPropertySignature ''data''
                     (TSTypeLiteral
                        [TSPropertySignature n (TSTypeReference (n @ ''$result'')) False True])
                     False True]))]
        else [])"
proof -
  from assms(2) obtain ty where "root_type (config_schema cfg) (od_operation def) = Some ty"
    by blast
  from generateOperationTypeDefs_ok [OF assms(1) this] show ?thesis
    by (simp add: internalTypeImport_def)
qed

theorem operation_afterLoad_type_witness:
  "(\<exists>program. generateOperationTypeDefs example_config hello_query = Inr program \<and>
      filter (\<lambda>a. fst a = ''Hello$afterLoad'') (exported_type_aliases program) =
        [(''Hello$afterLoad'', TSTypeLiteral
           [TSPropertySignature ''input''
              (TSTypeLiteral
                 [TSPropertySignature ''Hello'' (TSTypeReference ''Hello$input'') False True])
              False True,
            TSPropertySignature ''data''
              (TSTypeLiteral
                 [TSPropertySignature ''Hello'' (TSTypeReference ''Hello$result'') False True])
              False True])])
   \<and> (\<exists>program. generateOperationTypeDefs example_config do_thing_mutation = Inr program \<and>
        filter (\<lambda>a. fst a = ''DoThing$afterLoad'') (exported_type_aliases program) = [])
   \<and> (\<exists>program. generateOperationTypeDefs example_config watch_subscription = Inr program \<and>
        filter (\<lambda>a. fst a = ''Watch$afterLoad'') (exported_type_aliases program) = [])"
proof -
  have h: "od_name hello_query = Some ''Hello''"
    "root_type (config_schema example_config) (od_operation hello_query) = Some ''Query''"
    "hasInputs hello_query" "od_operation hello_query = Query"
    by (simp_all add: example_config_def hello_query_def hasInputs_def)
  have m: "od_name do_thing_mutation = Some ''DoThing''"
    "root_type (config_schema example_config) (od_operation do_thing_mutation) = Some ''Mutation''"
    "od_operation do_thing_mutation = Mutation"
    by (simp_all add: example_config_def hello_query_def do_thing_mutation_def
        watch_subscription_def)
  have s: "od_name watch_subscription = Some ''Watch''"
    "root_type (config_schema example_config) (od_operation watch_subscription) =
       Some ''Subscription''"
    "od_operation watch_subscription = Subscription"
    by (simp_all add: example_config_def hello_query_def do_thing_mutation_def
        watch_subscription_def)
  have rh: "root_type (config_schema example_config) (od_operation hello_query) \<noteq> None"
    and rm: "root_type (config_schema example_config) (od_operation do_thing_mutation) \<noteq> None"
    and rs: "root_type (config_schema example_config) (od_operation watch_subscription) \<noteq> None"
    using h(2) m(2) s(2) by simp_all
  from operation_afterLoad_type [OF h(1) rh] operation_afterLoad_type [OF m(1) rm]
    operation_afterLoad_type [OF s(1) rs] h(3,4) m(3) s(3)
  show ?thesis by simp
qed

subsection \<open>Fragments\<close>

text \<open>
  Claim C6. For every fragment definition whose type condition names a type of the schema,
  the generated program imports \<open><FragmentName>Fragment\<close> from the internal type
  definitions and exports exactly two type aliases, in this order: under the fragment's
  name an object type with the read-only optional field \<open>shape\<close> of type
  \<open><FragmentName>$data\<close> and the read-only field \<open>$fragments\<close> of type
  \<open>{ <FragmentName>: true }\<close>, and \<open><FragmentName>$data\<close> as an alias of
  \<open><FragmentName>Fragment\<close>. When the type condition names no type of the schema the
  generator throws and there is no program.
\<close>

theorem fragment_type_pair:
  "(getType (config_schema cfg) (fd_typeCondition def) \<noteq> None \<longrightarrow>
      (\<exists>program. generateFragmentTypeDefs cfg def = Inr program \<and>
         imported_types program =
           [(fd_name def @ ''Fragment'', ''./'' @ internalTypeDefinitionFileName cfg, ''type'')] \<and>
         exported_type_aliases program =
           [(fd_name def,
             TSTypeLiteral
               [TSPropertySignature ''shape'' (TSTypeReference (fd_name def @ ''$data''))
                  True True,
                TSPropertySignature ''$fragments''
                  (TSTypeLiteral
                     [TSPropertySignature (fd_name def) (TSLiteralType True) False False])
                  False True]),
            (fd_name def @ ''$data'', TSTypeReference (fd_name def @ ''Fragment''))]))
   \<and> (getType (config_schema cfg) (fd_typeCondition def) = None \<longrightarrow>
        generateFragmentTypeDefs cfg def = Inl (Error ''Should not get here''))"
  by (auto simp: generateFragmentTypeDefs_def Let_def readonlyProperty_simp fragmentKey_def
      internalTypeImport_def)

theorem fragment_type_pair_witness:
  "getType (config_schema example_config) (fd_typeCondition user_info_fragment) = Some ''User''
   \<and> (\<exists>program. generateFragmentTypeDefs example_config user_info_fragment = Inr program \<and>
         imported_types program = [(''UserInfoFragment'', ''./graphql'', ''type'')] \<and>
         exported_type_aliases program =
           [(''UserInfo'',
             TSTypeLiteral
               [TSPropertySignature ''shape'' (TSTypeReference ''UserInfo$data'') True True,
                TSPropertySignature ''$fragments''
                  (TSTypeLiteral [TSPropertySignature ''UserInfo'' (TSLiteralType True) False False])
                  False True]),
            (''UserInfo$data'', TSTypeReference ''UserInfoFragment'')])
   \<and> getType (config_schema example_config) (fd_typeCondition lost_fragment) = None
   \<and> generateFragmentTypeDefs example_config lost_fragment = Inl (Error ''Should not get here'')"
proof -
  have u: "getType (config_schema example_config) (fd_typeCondition user_info_fragment) =
      Some ''User''"
    "fd_name user_info_fragment = ''UserInfo''"
    "internalTypeDefinitionFileName example_config = ''graphql''"
    by (simp_all add: example_config_def user_info_fragment_def lost_fragment_def)
  have l: "getType (config_schema example_config) (fd_typeCondition lost_fragment) = None"
    by (simp add: example_config_def user_info_fragment_def lost_fragment_def)
  from fragment_type_pair [of example_config user_info_fragment]
    fragment_type_pair [of example_config lost_fragment]
  show ?thesis
    unfolding u l by simp
qed

subsection \<open>The index file\<close>

lemma count_dots_segment:
  "list_all segment_char xs \<Longrightarrow> count_list xs (CHR ''.'') = 0"
  by (induction xs) (auto simp: segment_char_def)

lemma matches_dts_one_dot:
  assumes "matches_dts (c # cs)"
  shows "count_list cs (CHR ''.'') = 1"
proof -
  from assms obtain rest where
    d: "dropWhile segment_char cs = CHR ''.'' # rest" and r: "list_all segment_char rest"
    by (auto split: list.splits)
  have t: "list_all segment_char (takeWhile segment_char cs)"
    by (auto simp: list_all_iff dest: set_takeWhileD)
  have "cs = takeWhile segment_char cs @ CHR ''.'' # rest"
    using takeWhile_dropWhile_id [of segment_char cs] d by simp
  then have "count_list cs (CHR ''.'') =
      count_list (takeWhile segment_char cs) (CHR ''.'') + (1 + count_list rest (CHR ''.''))"
    by (metis count_list.simps(2) count_list_append add.commute)
  then show ?thesis
    using count_dots_segment [OF t] count_dots_segment [OF r] by simp
qed

lemma matches_dts_suffix:
  assumes "a \<noteq> []" "b \<noteq> []" "list_all segment_char a" "list_all segment_char b"
  shows "matches_dts (CHR ''.'' # a @ CHR ''.'' # b)"
proof -
  have n: "\<not> segment_char (CHR ''.'')" by (simp add: segment_char_def)
  have "takeWhile segment_char (a @ CHR ''.'' # b) = a"
    using assms(3) n by (induction a) auto
  moreover have "dropWhile segment_char (a @ CHR ''.'' # b) = CHR ''.'' # b"
    using assms(3) n by (induction a) auto
  ultimately show ?thesis using assms by simp
qed

lemma not_matches_dts_before_suffix:
  "\<not> matches_dts (c # p @ CHR ''.'' # a @ CHR ''.'' # b)"
proof
  assume "matches_dts (c # p @ CHR ''.'' # a @ CHR ''.'' # b)"
  then have "count_list (p @ CHR ''.'' # a @ CHR ''.'' # b) (CHR ''.'') = 1"
    by (rule matches_dts_one_dot)
  then show False by simp
qed

lemma replace_dts_suffix:
  assumes "a \<noteq> []" "b \<noteq> []" "list_all segment_char a" "list_all segment_char b"
  shows "replace_dts (p @ CHR ''.'' # a @ CHR ''.'' # b) = p"
proof (induction p)
  case Nil
  show ?case using matches_dts_suffix [OF assms] by simp
next
  case (Cons c p)
  show ?case using Cons.IH not_matches_dts_before_suffix [of c p a b] by simp
qed

text \<open>
  Claim C7. For every sequence of generated file paths, the index program has one
  re-export per path, in the order of the sequence, of \<open>./\<close> followed by the path relative
  to the index location with the suffix matched by \<^verbatim>\<open>\.[^/.]+\.[^/.]+$\<close> deleted, and
  then, as its last two entries, the re-exports of \<open>./runtime\<close> and \<open>./stores\<close>.
  Deleting the suffix takes one dual extension off the end: a path \<open>p.a.b\<close>, where \<open>a\<close>
  and \<open>b\<close> are non-empty and hold neither a dot nor a slash, becomes \<open>p\<close>, whatever
  \<open>p\<close> ends with (\<open>.xyz.ext.ext\<close> becomes \<open>.xyz\<close>).
\<close>

theorem index_manifest_entries:
  "length (typeIndex relative typePaths) = length typePaths + 2 \<and>
   (\<forall>i < length typePaths.
      typeIndex relative typePaths ! i =
        ExportAllDeclaration (''./'' @ replace_dts (relative (typePaths ! i)))) \<and>
   drop (length typePaths) (typeIndex relative typePaths) =
     [ExportAllDeclaration ''./runtime'', ExportAllDeclaration ''./stores''] \<and>
   (\<forall>p a b. a \<noteq> [] \<and> b \<noteq> [] \<and> list_all segment_char a \<and> list_all segment_char b \<longrightarrow>
      replace_dts (p @ ''.'' @ a @ ''.'' @ b) = p)"
proof -
  have "replace_dts (p @ ''.'' @ a @ ''.'' @ b) = p"
    if "a \<noteq> []" "b \<noteq> []" "list_all segment_char a" "list_all segment_char b" for p a b
    using replace_dts_suffix [OF that, of p] by simp
  then show ?thesis
    by (simp add: typeIndex_def nth_append)
qed

theorem index_manifest_entries_witness:
  "typeIndex (\<lambda>p. p) [''artifacts/Hello.d.ts'', ''.xyz.ext.ext''] =
     [ExportAllDeclaration ''./artifacts/Hello'', ExportAllDeclaration ''./.xyz'',
      ExportAllDeclaration ''./runtime'', ExportAllDeclaration ''./stores'']
   \<and> replace_dts ''.xyz.ext.ext'' = ''.xyz''
   \<and> drop 2 (typeIndex (\<lambda>p. p) [''artifacts/Hello.d.ts'', ''.xyz.ext.ext'']) =
     [ExportAllDeclaration ''./runtime'', ExportAllDeclaration ''./stores'']"
proof -
  note t = index_manifest_entries [of "\<lambda>p. p" "[''artifacts/Hello.d.ts'', ''.xyz.ext.ext'']"]
  from t have "drop (length [''artifacts/Hello.d.ts'', ''.xyz.ext.ext''])
      (typeIndex (\<lambda>p. p) [''artifacts/Hello.d.ts'', ''.xyz.ext.ext'']) =
     [ExportAllDeclaration ''./runtime'', ExportAllDeclaration ''./stores'']"
    by blast
  then have d: "drop 2 (typeIndex (\<lambda>p. p) [''artifacts/Hello.d.ts'', ''.xyz.ext.ext'']) =
     [ExportAllDeclaration ''./runtime'', ExportAllDeclaration ''./stores'']"
    by (simp add: numeral_2_eq_2)
  from t have "list_all segment_char ''ext'' \<longrightarrow>
      replace_dts (''.xyz'' @ ''.'' @ ''ext'' @ ''.'' @ ''ext'') = ''.xyz''"
    by blast
  then have r: "replace_dts ''.xyz.ext.ext'' = ''.xyz''"
    by (simp add: segment_char_def)
  have "typeIndex (\<lambda>p. p) [''artifacts/Hello.d.ts'', ''.xyz.ext.ext''] =
     [ExportAllDeclaration ''./artifacts/Hello'', ExportAllDeclaration ''./.xyz'',
      ExportAllDeclaration ''./runtime'', ExportAllDeclaration ''./stores'']"
    by (simp add: typeIndex_def segment_char_def)
  with d r show ?thesis by simp
qed

subsection \<open>Failures of type synthesis\<close>





subsection \<open>Operations without a name\<close>

lemma find_matches_name:
  "find (matches_name name) defs = Some (OperationDef od) \<Longrightarrow> od_name od = Some name"
  by (induction defs) (auto split: if_splits)

text \<open>
  Claim C10. The operation generator reads the name of the definition first: for every
  operation definition without a name it throws (the \<open>TypeError\<close> branch), whatever the
  schema. In \<open>typescriptGenerator\<close> that branch is not reached: the definition handed to
  the operation generator is the one found by its name, so its name is the name of the
  collected document.
\<close>

theorem anonymous_operation_error:
  "(od_name def = None \<longrightarrow> generateOperationTypeDefs cfg def = Inl TypeError) \<and>
   (find (matches_name (cd_name doc)) (definitions (cd_originalDocument doc)) =
      Some (OperationDef od)
      \<longrightarrow> od_name od = Some (cd_name doc) \<and>
          artifact_program cfg doc = generateOperationTypeDefs cfg od)"
  by (auto simp: generateOperationTypeDefs_def artifact_program_def dest: find_matches_name)

theorem anonymous_operation_error_witness:
  "od_name anonymous_query = None
   \<and> generateOperationTypeDefs example_config anonymous_query = Inl TypeError
   \<and> find (matches_name (cd_name hello_document)) (definitions (cd_originalDocument hello_document)) =
       Some (OperationDef hello_query)
   \<and> od_name hello_query = Some (cd_name hello_document)
   \<and> artifact_program example_config hello_document =
       generateOperationTypeDefs example_config hello_query"
proof -
  have a: "od_name anonymous_query = None"
    by (simp add: anonymous_query_def)
  have f: "find (matches_name (cd_name hello_document))
      (definitions (cd_originalDocument hello_document)) = Some (OperationDef hello_query)"
    by (simp add: hello_document_def anonymous_query_def hello_query_def)
  from anonymous_operation_error [of anonymous_query example_config hello_document hello_query]
    a f
  show ?thesis by simp
qed

end
